theory Spec2Isabelle
  imports Complex_Main "HOL-Library.Sublist" "HOL-Library.Char_ord" "HOL-Library.List_Lexorder"
begin

section \<open>Strings as the handlers use them\<close>

text \<open>
  Python strings are modelled as \<^typ>\<open>string\<close>. The handlers only inspect ASCII text
  (tool output, storage keys, header values), so \<open>str.lower()\<close> is the ASCII case
  mapping, and \<open>p in s\<close> is the contiguous-substring test.
\<close>

definition lower_char :: "char \<Rightarrow> char" where
  "lower_char c =
     (if CHR ''A'' \<le> c \<and> c \<le> CHR ''Z'' then char_of (of_char c + (32::nat)) else c)"

definition lower :: "string \<Rightarrow> string" where
  "lower s = map lower_char s"

fun str_in :: "string \<Rightarrow> string \<Rightarrow> bool" where
  "str_in p [] = (p = [])"
| "str_in p (c # s) = (prefix p (c # s) \<or> str_in p s)"

section \<open>backup\_handler.py: error classification\<close>

text \<open>
  \<open>categorize_error\<close>: an \<open>if/elif\<close> chain over the lower-cased message; the first
  matching branch decides.
\<close>

definition categorize_error :: "string \<Rightarrow> string" where
  "categorize_error error_msg =
     (let error_lower = lower error_msg in
      if str_in ''no space left'' error_lower \<or> str_in ''insufficient disk space'' error_lower
        then ''DISK_SPACE''
      else if str_in ''authentication failed'' error_lower \<or> str_in ''permission denied'' error_lower
        then ''AUTHENTICATION''
      else if str_in ''repository not found'' error_lower \<or> str_in ''not found'' error_lower
        then ''REPOSITORY_ACCESS''
      else if str_in ''timeout'' error_lower \<or> str_in ''timed out'' error_lower
        then ''TIMEOUT''
      else if str_in ''network'' error_lower \<or> str_in ''connection'' error_lower
              \<or> str_in ''dns'' error_lower
        then ''NETWORK''
      else if str_in ''libpcre2'' error_lower \<or> str_in ''shared libraries'' error_lower
        then ''LAMBDA_LAYER''
      else if str_in ''no such file or directory'' error_lower \<and> str_in ''git'' error_lower
        then ''GIT_MISSING''
      else if str_in ''memory'' error_lower \<or> str_in ''out of memory'' error_lower
        then ''MEMORY''
      else ''UNKNOWN'')"

definition known_patterns :: "string list" where
  "known_patterns =
     [''no space left'', ''insufficient disk space'', ''authentication failed'',
      ''permission denied'', ''repository not found'', ''not found'', ''timeout'',
      ''timed out'', ''network'', ''connection'', ''dns'', ''libpcre2'',
      ''shared libraries'', ''no such file or directory'', ''memory'', ''out of memory'']"

text \<open>
  \<open>s.split(sep)\<close> and \<open>s.replace(old, new)\<close> scan left to right over non-overlapping
  occurrences. Python raises \<open>ValueError\<close> for an empty separator; every call site
  passes a non-empty literal, and the model leaves the string whole in that case.
\<close>

function py_split_from :: "string \<Rightarrow> string \<Rightarrow> string \<Rightarrow> string list" where
  "py_split_from sep cur [] = [rev cur]"
| "py_split_from sep cur (c # s) =
     (if sep \<noteq> [] \<and> prefix sep (c # s)
      then rev cur # py_split_from sep [] (drop (length sep) (c # s))
      else py_split_from sep (c # cur) s)"
  by pat_completeness auto
termination
  by (relation "measure (\<lambda>(sep, cur, s). length s)") auto

definition py_split :: "string \<Rightarrow> string \<Rightarrow> string list" where
  "py_split s sep = py_split_from sep [] s"

function py_replace :: "string \<Rightarrow> string \<Rightarrow> string \<Rightarrow> string" where
  "py_replace [] old new = []"
| "py_replace (c # s) old new =
     (if old \<noteq> [] \<and> prefix old (c # s)
      then new @ py_replace (drop (length old) (c # s)) old new
      else c # py_replace s old new)"
  by pat_completeness auto
termination
  by (relation "measure (\<lambda>(s, old, new). length s)") auto

text \<open>Decimal rendering: \<open>str(n)\<close> of an integer, and the zero-padded two-digit fields
  of \<open>strftime\<close>.\<close>

definition digit_char :: "nat \<Rightarrow> char" where
  "digit_char d = char_of (48 + d)"

function str_nat :: "nat \<Rightarrow> string" where
  "str_nat n = (if n < 10 then [digit_char n] else str_nat (n div 10) @ [digit_char (n mod 10)])"
  by pat_completeness auto
termination
  by (relation "measure id") auto

declare str_nat.simps [simp del]

definition str_int :: "int \<Rightarrow> string" where
  "str_int i = (if i < 0 then CHR ''-'' # str_nat (nat (- i)) else str_nat (nat i))"

definition pad2 :: "nat \<Rightarrow> string" where
  "pad2 n = (if n < 10 then CHR ''0'' # str_nat n else str_nat n)"

section \<open>Clock readings and storage keys\<close>

text \<open>
  A reading of \<open>datetime.now()\<close>, with the fields \<open>strftime\<close> prints. Python's
  \<open>datetime\<close> has years 1 to 9999; \<open>%m\<close>, \<open>%d\<close>, \<open>%H\<close> and \<open>%M\<close> are zero-padded
  to two digits, \<open>%Y\<close> is the year in decimal.
\<close>

record datetime =
  year :: nat
  month :: nat
  day :: nat
  hour :: nat
  minute :: nat
  second :: nat

definition strftime_Ymd :: "datetime \<Rightarrow> string" where
  "strftime_Ymd t = str_nat (year t) @ ''-'' @ pad2 (month t) @ ''-'' @ pad2 (day t)"

definition strftime_HM :: "datetime \<Rightarrow> string" where
  "strftime_HM t = pad2 (hour t) @ ''-'' @ pad2 (minute t)"

text \<open>The key of \<open>backup_single_repository\<close>:
  \<open>f"nightly/{repo_name}/{date_str}-{timestamp}.tar.gz"\<close>.\<close>

definition s3_key_of :: "string \<Rightarrow> string \<Rightarrow> string \<Rightarrow> string" where
  "s3_key_of repo_name date_str timestamp =
     ''nightly/'' @ repo_name @ ''/'' @ date_str @ ''-'' @ timestamp @ ''.tar.gz''"

text \<open>The scratch directory of \<open>backup_single_repository\<close>:
  \<open>f"/tmp/{repo_name}_{int(datetime.now().timestamp())}"\<close>; its entry name under
  \<open>/tmp\<close> is the repository name, an underscore and the epoch seconds.\<close>

definition scratch_dir_name :: "string \<Rightarrow> int \<Rightarrow> string" where
  "scratch_dir_name repo_name epoch = repo_name @ ''_'' @ str_int epoch"

definition temp_dir_of :: "string \<Rightarrow> int \<Rightarrow> string" where
  "temp_dir_of repo_name epoch = ''/tmp/'' @ scratch_dir_name repo_name epoch"

definition is_scratch_dir_name :: "string \<Rightarrow> bool" where
  "is_scratch_dir_name item \<longleftrightarrow> (\<exists>repo_name epoch. item = scratch_dir_name repo_name epoch)"

definition os_path_join :: "string \<Rightarrow> string \<Rightarrow> string" where
  "os_path_join a b =
     (if prefix ''/'' b then b
      else if a = [] \<or> suffix ''/'' a then a @ b
      else a @ ''/'' @ b)"

text \<open>
  Clock readings as the claims about keys need them: a reading in the range where
  \<open>%Y\<close> prints four digits, two readings on one calendar day, and the order of
  readings by calendar minute and by second.
\<close>

definition valid_datetime :: "datetime \<Rightarrow> bool" where
  "valid_datetime t \<longleftrightarrow>
     1000 \<le> year t \<and> year t \<le> 9999 \<and> 1 \<le> month t \<and> month t \<le> 12 \<and>
     1 \<le> day t \<and> day t \<le> 31 \<and> hour t \<le> 23 \<and> minute t \<le> 59 \<and> second t \<le> 59"

definition same_day :: "datetime \<Rightarrow> datetime \<Rightarrow> bool" where
  "same_day a b \<longleftrightarrow> year a = year b \<and> month a = month b \<and> day a = day b"

definition minute_before :: "datetime \<Rightarrow> datetime \<Rightarrow> bool" where
  "minute_before a b \<longleftrightarrow>
     year a < year b \<or> (year a = year b \<and>
       (month a < month b \<or> (month a = month b \<and>
         (day a < day b \<or> (day a = day b \<and>
           (hour a < hour b \<or> (hour a = hour b \<and> minute a < minute b)))))))"

definition same_minute :: "datetime \<Rightarrow> datetime \<Rightarrow> bool" where
  "same_minute a b \<longleftrightarrow> same_day a b \<and> hour a = hour b \<and> minute a = minute b"

definition before :: "datetime \<Rightarrow> datetime \<Rightarrow> bool" where
  "before a b \<longleftrightarrow> minute_before a b \<or> (same_minute a b \<and> second a < second b)"

section \<open>backup\_handler.py: pre-clone access validation\<close>

record repo_info =
  repo_name :: string
  repo_clone_url :: string
  repo_archived :: bool
  repo_size :: "int option"

datatype http_result = Response nat | RequestError string

text \<open>
  What the access check can see of the world: whether \<open>import requests\<close> succeeds,
  and what \<open>requests.get(api_url, headers=headers, timeout=10)\<close> does (a response
  with a status code, or an exception).
\<close>

record access_env =
  import_requests_error :: "string option"
  requests_get :: "string \<Rightarrow> (string \<times> string) list \<Rightarrow> http_result"

text \<open>The URL the check queries, when the clone URL yields an owner and a repository.\<close>

definition repo_api_url :: "string \<Rightarrow> string option" where
  "repo_api_url clone_url =
     (if str_in ''github.com/'' clone_url then
        (let parts = py_split (py_replace (last (py_split clone_url ''github.com/'')) ''.git'' []) ''/''
         in if length parts \<ge> 2
            then Some (''https://api.github.com/repos/'' @ parts ! 0 @ ''/'' @ parts ! 1)
            else None)
      else None)"

text \<open>
  \<open>validate_repository_access\<close>. The whole body is inside \<open>try\<close>; the handler of
  \<open>except Exception\<close> returns \<open>True\<close>, and so does the fall-through at the end.
\<close>

definition validate_repository_access :: "access_env \<Rightarrow> repo_info \<Rightarrow> string \<Rightarrow> bool" where
  "validate_repository_access env repo token =
     (case import_requests_error env of
        Some e \<Rightarrow> True
      | None \<Rightarrow>
         (case repo_api_url (repo_clone_url repo) of
            None \<Rightarrow> True
          | Some api_url \<Rightarrow>
             (case requests_get env api_url [(''Authorization'', ''token '' @ token)] of
                RequestError e \<Rightarrow> True
              | Response status_code \<Rightarrow>
                  if status_code = 200 then True
                  else if status_code = 404 then False
                  else if status_code = 403 then False
                  else True)))"

section \<open>backup\_handler.py: the disk-space guard\<close>

text \<open>
  The directory the guard looks at, as the handler observes it: what \<open>os.statvfs\<close>
  reports (or that it raises), whether the path exists, and what \<open>os.listdir\<close>
  returns. An entry carries what \<open>os.path.isdir\<close>, \<open>os.path.getmtime\<close> and
  \<open>shutil.rmtree\<close> do on it, and the blocks its removal frees. Times are seconds
  since the epoch; Python's floats are modelled as exact rationals.
\<close>

record dir_entry =
  entry_name :: string
  entry_is_dir :: bool
  entry_mtime :: "string + rat"
  entry_rmtree_error :: "string option"
  entry_blocks :: nat

record filesystem =
  statvfs_error :: "string option"
  f_bavail :: nat
  f_frsize :: nat
  path_exists :: bool
  listdir :: "string + dir_entry list"

text \<open>
  One iteration of the loop of \<open>cleanup_old_temp_directories\<close>. An exception of
  \<open>getmtime\<close> or \<open>rmtree\<close> is caught inside the loop and the entry stays.
\<close>

definition cleanup_item :: "rat \<Rightarrow> string \<Rightarrow> filesystem \<Rightarrow> dir_entry \<Rightarrow> filesystem" where
  "cleanup_item current_time base_path fs e =
     (let item = entry_name e; item_path = os_path_join base_path item in
      if entry_is_dir e \<and> str_in ''_'' item \<and> item_path \<noteq> base_path then
        (case entry_mtime e of
           Inl err \<Rightarrow> fs
         | Inr mtime \<Rightarrow>
            (let age_hours = (current_time - mtime) / 3600 in
             if age_hours > 1 then
               (case entry_rmtree_error e of
                  Some err \<Rightarrow> fs
                | None \<Rightarrow>
                   fs\<lparr>listdir := map_sum id (filter (\<lambda>x. entry_name x \<noteq> item)) (listdir fs),
                      f_bavail := f_bavail fs + entry_blocks e\<rparr>)
             else fs))
      else fs)"

text \<open>\<open>cleanup_old_temp_directories\<close>: the whole body is inside \<open>try\<close>, and the
  handler only logs.\<close>

definition cleanup_old_temp_directories :: "rat \<Rightarrow> string \<Rightarrow> filesystem \<Rightarrow> filesystem" where
  "cleanup_old_temp_directories current_time base_path fs =
     (if \<not> path_exists fs then fs
      else case listdir fs of
             Inl err \<Rightarrow> fs
           | Inr items \<Rightarrow> foldl (cleanup_item current_time base_path) fs items)"

text \<open>The entries a reclamation pass removed.\<close>

definition entries_of :: "filesystem \<Rightarrow> dir_entry list" where
  "entries_of fs = (case listdir fs of Inl err \<Rightarrow> [] | Inr items \<Rightarrow> items)"

definition available_mb :: "filesystem \<Rightarrow> rat" where
  "available_mb fs = of_nat (f_bavail fs * f_frsize fs) / (1024 * 1024)"

text \<open>
  The \<open>try\<close> block of \<open>check_disk_space\<close>: \<open>Inl\<close> is the exception it raises
  (the message without the formatted numbers), \<open>Inr ()\<close> is falling off its end.
\<close>

definition check_disk_space_try ::
    "rat \<Rightarrow> filesystem \<Rightarrow> string \<Rightarrow> int \<Rightarrow> (string + unit) \<times> filesystem" where
  "check_disk_space_try current_time fs path required_mb =
     (case statvfs_error fs of
        Some err \<Rightarrow> (Inl err, fs)
      | None \<Rightarrow>
         if available_mb fs < of_int required_mb then
           (let fs' = cleanup_old_temp_directories current_time path fs in
            if available_mb fs' < of_int required_mb
            then (Inl ''Insufficient disk space'', fs')
            else (Inr (), fs'))
         else (Inr (), fs))"

text \<open>
  \<open>check_disk_space\<close>: the \<open>try\<close> block above under
  \<open>except Exception as e: logger.warning(...)\<close>, which catches every exception of the
  block, the \<open>RuntimeError\<close> of the block itself included, and returns.
\<close>

definition check_disk_space ::
    "rat \<Rightarrow> filesystem \<Rightarrow> string \<Rightarrow> int \<Rightarrow> (string + unit) \<times> filesystem" where
  "check_disk_space current_time fs path required_mb =
     (case check_disk_space_try current_time fs path required_mb of
        (Inl e, fs') \<Rightarrow> (Inr (), fs')
      | (Inr u, fs') \<Rightarrow> (Inr u, fs'))"

text \<open>What the claim asks of the guard: it raises when the space measured after the
  reclamation pass is still below the requirement.\<close>

definition still_insufficient :: "rat \<Rightarrow> filesystem \<Rightarrow> string \<Rightarrow> int \<Rightarrow> bool" where
  "still_insufficient current_time fs path required_mb \<longleftrightarrow>
     statvfs_error fs = None \<and> available_mb fs < of_int required_mb \<and>
     available_mb (cleanup_old_temp_directories current_time path fs) < of_int required_mb"

text \<open>Two observations of \<open>/tmp\<close> with 10 MB free (2560 blocks of 4096 bytes):
  one with nothing in it, one holding a two-hour-old directory of another program.\<close>

definition full_tmp :: filesystem where
  "full_tmp = \<lparr>statvfs_error = None, f_bavail = 2560, f_frsize = 4096, path_exists = True,
     listdir = Inr []\<rparr>"

definition foreign_tmp :: filesystem where
  "foreign_tmp = \<lparr>statvfs_error = None, f_bavail = 2560, f_frsize = 4096, path_exists = True,
     listdir = Inr [
       \<lparr>entry_name = ''my_data'', entry_is_dir = True, entry_mtime = Inr 1000,
         entry_rmtree_error = None, entry_blocks = 100\<rparr>,
       \<lparr>entry_name = ''cache'', entry_is_dir = True, entry_mtime = Inr 1000,
         entry_rmtree_error = None, entry_blocks = 100\<rparr>]\<rparr>"

section \<open>backup\_handler.py: the backup of one repository\<close>

text \<open>
  The result dictionaries of the handlers; an absent key is \<open>None\<close>.
\<close>

record outcome =
  repository :: string
  success :: bool
  skipped :: "bool option"
  reason :: "string option"
  s3_key :: "string option"
  size_bytes :: "nat option"
  error :: "string option"
  error_category :: "string option"

definition skipped_outcome :: "string \<Rightarrow> outcome" where
  "skipped_outcome name =
     \<lparr>repository = name, success = False, skipped = Some True, reason = Some ''archived'',
      s3_key = None, size_bytes = None, error = None, error_category = None\<rparr>"

definition success_outcome :: "string \<Rightarrow> string \<Rightarrow> nat \<Rightarrow> outcome" where
  "success_outcome name key file_size =
     \<lparr>repository = name, success = True, skipped = None, reason = None,
      s3_key = Some key, size_bytes = Some file_size, error = None, error_category = None\<rparr>"

definition failed_outcome :: "string \<Rightarrow> string \<Rightarrow> string option \<Rightarrow> outcome" where
  "failed_outcome name msg category =
     \<lparr>repository = name, success = False, skipped = None, reason = None,
      s3_key = None, size_bytes = None, error = Some msg, error_category = category\<rparr>"

text \<open>The calls a backup makes on the world outside the process, in the order made.\<close>

datatype effect =
    AuditEvent string string string
  | HistoryRecord string string string
  | MakeDirs string
  | CheckDiskSpace string int
  | AccessCheck string
  | Clone string string
  | Compress string string
  | RemoveTree string
  | Upload string string string

text \<open>
  What the steps of one backup do in a given run: \<open>None\<close> is success, \<open>Some msg\<close>
  the exception a step raises. \<open>check_disk_space\<close> returns normally on every input
  and stands in the trace only; \<open>download_repository\<close>, \<open>create_archive\<close> and
  \<open>upload_to_s3\<close> are taken by their outcome.
\<close>

record backup_world =
  now_epoch :: int
  makedirs_error :: "string option"
  access :: access_env
  clone_error :: "string option"
  archive_error :: "string option"
  now_upload :: datetime
  upload_error :: "string option"
  getsize :: "string + nat"

text \<open>The \<open>except Exception as e\<close> of \<open>backup_single_repository\<close>: the message of the
  exception it raises in turn.\<close>

definition reraise_message :: "repo_info \<Rightarrow> string \<Rightarrow> string" where
  "reraise_message repo error_msg =
     (let size_str = (case repo_size repo of None \<Rightarrow> ''unknown'' | Some n \<Rightarrow> str_int n) in
      if str_in ''no space left'' (lower error_msg) \<or> str_in ''insufficient disk space'' (lower error_msg)
        then ''Ephemeral storage exhausted while backing up '' @ repo_name repo
               @ ''. Repository size: '' @ size_str @ '' KB''
      else if str_in ''authentication failed'' (lower error_msg)
        then ''GitHub authentication failed for '' @ repo_name repo @ ''. Check token permissions.''
      else if str_in ''repository not found'' (lower error_msg)
        then ''Repository '' @ repo_name repo @ '' not found. It may be private, deleted, or renamed.''
      else if str_in ''timed out'' (lower error_msg)
        then ''Timeout while backing up '' @ repo_name repo @ ''. Repository may be too large.''
      else ''Failed to backup '' @ repo_name repo @ '': '' @ error_msg)"

text \<open>
  The \<open>try\<close> block of \<open>backup_single_repository\<close>: the first failing step ends it.
  The result is the exception message or the returned dictionary, with the calls made.
\<close>

definition backup_try ::
    "backup_world \<Rightarrow> repo_info \<Rightarrow> string \<Rightarrow> string \<Rightarrow> string \<Rightarrow> (string + outcome) \<times> effect list" where
  "backup_try w repo bucket token date_str =
     (let temp_dir = temp_dir_of (repo_name repo) (now_epoch w);
          repo_dir = os_path_join temp_dir (repo_name repo);
          archive_path = os_path_join temp_dir (repo_name repo @ ''.tar.gz'');
          e1 = [MakeDirs temp_dir] in
      case makedirs_error w of Some m \<Rightarrow> (Inl m, e1) | None \<Rightarrow>
      (let e2 = e1 @ [CheckDiskSpace ''/tmp'' 1000, AccessCheck (repo_clone_url repo)] in
       if \<not> validate_repository_access (access w) repo token
       then (Inl (''Repository '' @ repo_name repo @ '' is not accessible with current token''), e2)
       else
       (let e3 = e2 @ [Clone (repo_clone_url repo) repo_dir] in
        case clone_error w of Some m \<Rightarrow> (Inl m, e3) | None \<Rightarrow>
        (let e4 = e3 @ [CheckDiskSpace ''/tmp'' 500, Compress repo_dir archive_path] in
         case archive_error w of Some m \<Rightarrow> (Inl m, e4) | None \<Rightarrow>
         (let timestamp = strftime_HM (now_upload w);
              key = s3_key_of (repo_name repo) date_str timestamp;
              e5 = e4 @ [RemoveTree repo_dir, Upload archive_path bucket key] in
          case upload_error w of Some m \<Rightarrow> (Inl m, e5) | None \<Rightarrow>
          (case getsize w of
             Inl m \<Rightarrow> (Inl m, e5)
           | Inr file_size \<Rightarrow> (Inr (success_outcome (repo_name repo) key file_size), e5)))))))"

text \<open>\<open>backup_single_repository\<close>: the block, its handler, and the \<open>finally\<close> that
  removes the scratch directory.\<close>

definition backup_single_repository ::
    "backup_world \<Rightarrow> repo_info \<Rightarrow> string \<Rightarrow> string \<Rightarrow> string \<Rightarrow> (string + outcome) \<times> effect list" where
  "backup_single_repository w repo bucket token date_str =
     (let cleanup = [RemoveTree (temp_dir_of (repo_name repo) (now_epoch w))] in
      case backup_try w repo bucket token date_str of
        (Inl error_msg, effs) \<Rightarrow> (Inl (reraise_message repo error_msg), effs @ cleanup)
      | (Inr result, effs) \<Rightarrow> (Inr result, effs @ cleanup))"

section \<open>backup\_handler.py: the handler and the batch loop\<close>

text \<open>
  The event of Step Functions: \<open>name\<close> and \<open>clone_url\<close> may be missing;
  \<open>event.get('archived', False)\<close> reads a missing flag as false.
\<close>

record event =
  ev_name :: "string option"
  ev_clone_url :: "string option"
  ev_archived :: "bool option"
  ev_size :: "int option"

text \<open>
  The process environment of the handler, the secret store, and the two clock readings
  of the handler itself. The audit logger catches the errors of its own writes; its
  calls stand in the trace.
\<close>

record handler_world =
  env_S3_BUCKET_NAME :: "string option"
  env_GITHUB_TOKEN_SECRET_ARN :: "string option"
  get_secret_value :: "string \<Rightarrow> string + string"
  now_start :: datetime
  now_history :: datetime
  backup :: backup_world

text \<open>The \<open>except Exception as e\<close> of \<open>lambda_handler\<close>.\<close>

definition handler_failure :: "event \<Rightarrow> string \<Rightarrow> effect list \<Rightarrow> outcome \<times> effect list" where
  "handler_failure ev error_msg effs =
     (let name = (case ev_name ev of None \<Rightarrow> ''unknown'' | Some n \<Rightarrow> n) in
      (failed_outcome name error_msg (Some (categorize_error error_msg)),
       effs @ [AuditEvent name ''backup'' ''failed'']))"

definition lambda_handler :: "handler_world \<Rightarrow> event \<Rightarrow> outcome \<times> effect list" where
  "lambda_handler w ev =
     (case env_S3_BUCKET_NAME w of
        None \<Rightarrow> handler_failure ev ([CHR 0x27] @ ''S3_BUCKET_NAME'' @ [CHR 0x27]) []
      | Some s3_bucket \<Rightarrow>
     (case env_GITHUB_TOKEN_SECRET_ARN w of
        None \<Rightarrow> handler_failure ev ([CHR 0x27] @ ''GITHUB_TOKEN_SECRET_ARN'' @ [CHR 0x27]) []
      | Some arn \<Rightarrow>
     (case get_secret_value w arn of
        Inl m \<Rightarrow> handler_failure ev m []
      | Inr github_token \<Rightarrow>
     (case (ev_name ev, ev_clone_url ev) of
        (Some name, Some url) \<Rightarrow>
          (let repo = \<lparr>repo_name = name, repo_clone_url = url,
                       repo_archived = (case ev_archived ev of None \<Rightarrow> False | Some b \<Rightarrow> b),
                       repo_size = ev_size ev\<rparr>;
               started = [AuditEvent name ''backup'' ''started''] in
           if repo_archived repo
           then (skipped_outcome name, started @ [AuditEvent name ''backup'' ''skipped''])
           else
            (let date_str = strftime_Ymd (now_start w) in
             case backup_single_repository (backup w) repo s3_bucket github_token date_str of
               (Inl m, effs) \<Rightarrow> handler_failure ev m (started @ effs)
             | (Inr result, effs) \<Rightarrow>
                 if success result
                 then (result, started @ effs @
                         [AuditEvent name ''backup'' ''completed'',
                          HistoryRecord name
                            (''nightly/'' @ date_str @ ''-'' @ strftime_HM (now_history w))
                            (case s3_key result of None \<Rightarrow> [] | Some k \<Rightarrow> k)])
                 else (result, started @ effs @ [AuditEvent name ''backup'' ''failed''])))
      | _ \<Rightarrow> handler_failure ev ''Repository name and clone_url must be provided in event'' []))))"


text \<open>The steps the archived-repository gate must keep from running.\<close>

fun is_backup_step :: "effect \<Rightarrow> bool" where
  "is_backup_step (Clone u d) = True"
| "is_backup_step (Compress d a) = True"
| "is_backup_step (Upload a b k) = True"
| "is_backup_step e = False"

text \<open>A run of the handler in a working environment, and an event for an archived
  repository.\<close>

definition demo_backup_world :: backup_world where
  "demo_backup_world =
     \<lparr>now_epoch = 1751409120, makedirs_error = None,
      access = \<lparr>import_requests_error = None, requests_get = (\<lambda>u h. Response 200)\<rparr>,
      clone_error = None, archive_error = None,
      now_upload = \<lparr>year = 2025, month = 7, day = 1, hour = 22, minute = 32, second = 20\<rparr>,
      upload_error = None, getsize = Inr 52428800\<rparr>"

definition demo_world :: handler_world where
  "demo_world =
     \<lparr>env_S3_BUCKET_NAME = Some ''backups'', env_GITHUB_TOKEN_SECRET_ARN = Some ''arn:token'',
      get_secret_value = (\<lambda>arn. Inr ''t0ken''),
      now_start = \<lparr>year = 2025, month = 7, day = 1, hour = 22, minute = 32, second = 5\<rparr>,
      now_history = \<lparr>year = 2025, month = 7, day = 1, hour = 22, minute = 32, second = 21\<rparr>,
      backup = demo_backup_world\<rparr>"


text \<open>An event for a repository that is not archived, and two later runs of the handler:
  one within the same calendar minute as \<open>demo_world\<close>, one in the next minute.\<close>

definition demo_event :: event where
  "demo_event = \<lparr>ev_name = Some ''demo'', ev_clone_url = Some ''https://github.com/acme/demo.git'',
     ev_archived = Some False, ev_size = Some 50000\<rparr>"

definition same_minute_world :: handler_world where
  "same_minute_world =
     demo_world\<lparr>
       now_start := \<lparr>year = 2025, month = 7, day = 1, hour = 22, minute = 32, second = 30\<rparr>,
       backup := demo_backup_world\<lparr>
         now_upload := \<lparr>year = 2025, month = 7, day = 1, hour = 22, minute = 32, second = 50\<rparr>\<rparr>\<rparr>"

definition next_minute_world :: handler_world where
  "next_minute_world =
     demo_world\<lparr>
       now_start := \<lparr>year = 2025, month = 7, day = 1, hour = 22, minute = 32, second = 30\<rparr>,
       backup := demo_backup_world\<lparr>
         now_upload := \<lparr>year = 2025, month = 7, day = 1, hour = 22, minute = 33, second = 10\<rparr>\<rparr>\<rparr>"

section \<open>archival\_handler.py: migration of one backup to cold storage\<close>

text \<open>
  The two stores the migration touches: the objects of the bucket, by key, and the
  archives of the vault, by archive identifier. An object is a backup archive or the
  metadata document written for an archived backup.
\<close>

datatype s3_body = Blob string | MetadataJson string string string nat

record storage =
  s3_objects :: "string \<rightharpoonup> s3_body"
  glacier_archives :: "string \<rightharpoonup> s3_body"

record backup_info =
  bi_key :: string
  bi_size :: "nat option"
  bi_repository_name :: "string option"

text \<open>What the service calls of one migration do: \<open>None\<close> is success, \<open>Some msg\<close> the
  exception raised; \<open>upload_archive\<close> answers with the archive identifier.\<close>

record archive_world =
  download_error :: "string option"
  upload_archive :: "string + string"
  now_iso :: string
  put_object_error :: "string option"
  delete_object_error :: "string option"

datatype archive_call =
    DownloadFileobj string
  | UploadArchive string
  | PutObject string
  | DeleteObject string

record archive_result =
  ar_backup_key :: string
  ar_success :: bool
  ar_archive_id :: "string option"
  ar_error :: "string option"

definition archive_failed :: "string \<Rightarrow> string \<Rightarrow> archive_result" where
  "archive_failed backup_key msg =
     \<lparr>ar_backup_key = backup_key, ar_success = False, ar_archive_id = None, ar_error = Some msg\<rparr>"

definition metadata_key_of :: "string \<Rightarrow> string" where
  "metadata_key_of backup_key = ''archived/'' @ backup_key @ ''.metadata.json''"

text \<open>
  \<open>archive_single_backup\<close>. The trace lists the service calls in the order made, each
  with the stores as they are when the call has returned or raised; an exception at any
  call ends the function with a failed result.
\<close>

definition archive_single_backup ::
    "archive_world \<Rightarrow> storage \<Rightarrow> backup_info \<Rightarrow> archive_result \<times> (archive_call \<times> storage) list" where
  "archive_single_backup w st info =
     (let backup_key = bi_key info;
          t1 = [(DownloadFileobj backup_key, st)] in
      case download_error w of Some m \<Rightarrow> (archive_failed backup_key m, t1) | None \<Rightarrow>
      (case s3_objects st backup_key of
         None \<Rightarrow> (archive_failed backup_key ''An error occurred (404): Not Found'', t1)
       | Some body \<Rightarrow>
      (case upload_archive w of
         Inl m \<Rightarrow> (archive_failed backup_key m, t1 @ [(UploadArchive backup_key, st)])
       | Inr archive_id \<Rightarrow>
      (let st2 = st\<lparr>glacier_archives := (glacier_archives st)(archive_id \<mapsto> body)\<rparr>;
           t2 = t1 @ [(UploadArchive backup_key, st2)] in
       case bi_size info of
         None \<Rightarrow> (archive_failed backup_key ([CHR 0x27] @ ''size'' @ [CHR 0x27]), t2)
       | Some original_size \<Rightarrow>
      (let metadata_key = metadata_key_of backup_key in
       case put_object_error w of
         Some m \<Rightarrow> (archive_failed backup_key m, t2 @ [(PutObject metadata_key, st2)])
       | None \<Rightarrow>
      (let st3 = st2\<lparr>s3_objects := (s3_objects st2)(metadata_key \<mapsto>
                   MetadataJson backup_key archive_id (now_iso w) original_size)\<rparr>;
           t3 = t2 @ [(PutObject metadata_key, st3)] in
       case delete_object_error w of
         Some m \<Rightarrow> (archive_failed backup_key m, t3 @ [(DeleteObject backup_key, st3)])
       | None \<Rightarrow>
      (let st4 = st3\<lparr>s3_objects := (s3_objects st3)(backup_key := None)\<rparr> in
       (\<lparr>ar_backup_key = backup_key, ar_success = True, ar_archive_id = Some archive_id,
         ar_error = None\<rparr>,
        t3 @ [(DeleteObject backup_key, st4)]))))))))"

text \<open>The ArchiveRecord of a key is persisted and leads to a cold copy of the body.\<close>

definition archive_record_persisted :: "storage \<Rightarrow> string \<Rightarrow> s3_body \<Rightarrow> bool" where
  "archive_record_persisted st backup_key body \<longleftrightarrow>
     (\<exists>archive_id date original_size.
        s3_objects st (metadata_key_of backup_key)
          = Some (MetadataJson backup_key archive_id date original_size) \<and>
        glacier_archives st archive_id = Some body)"

text \<open>At least one copy of the body is addressable: the hot object, or the cold
  archive through its persisted record.\<close>

definition addressable :: "storage \<Rightarrow> string \<Rightarrow> s3_body \<Rightarrow> bool" where
  "addressable st backup_key body \<longleftrightarrow>
     s3_objects st backup_key = Some body \<or> archive_record_persisted st backup_key body"

definition hot_store :: storage where
  "hot_store =
     \<lparr>s3_objects = [''nightly/demo/2025-05-01-22-32.tar.gz'' \<mapsto> Blob ''archive bytes''],
      glacier_archives = Map.empty\<rparr>"

definition demo_backup_info :: backup_info where
  "demo_backup_info = \<lparr>bi_key = ''nightly/demo/2025-05-01-22-32.tar.gz'', bi_size = Some 13,
     bi_repository_name = Some ''demo''\<rparr>"

definition working_archive_world :: archive_world where
  "working_archive_world = \<lparr>download_error = None, upload_archive = Inr ''archive-0001'',
     now_iso = ''2025-07-01T22:40:00'', put_object_error = None, delete_object_error = None\<rparr>"

section \<open>api\_handler.py and audit\_logger.py: the download operations\<close>

text \<open>
  Items of the download table and the dictionaries the handlers return are Python
  dictionaries: association lists in insertion order, with JSON-like values.
\<close>

datatype jval = JStr string | JNum int | JBool bool | JDict "(string \<times> jval) list"

type_synonym dict = "(string \<times> jval) list"

definition dict_get :: "dict \<Rightarrow> string \<Rightarrow> jval option" where
  "dict_get d k = map_of d k"

fun dict_set :: "string \<Rightarrow> jval \<Rightarrow> dict \<Rightarrow> dict" where
  "dict_set k v [] = [(k, v)]"
| "dict_set k v ((k', v') # d) = (if k' = k then (k, v) # d else (k', v') # dict_set k v d)"

text \<open>\<open>d.update(u)\<close>.\<close>

definition dict_update :: "dict \<Rightarrow> dict \<Rightarrow> dict" where
  "dict_update d u = foldl (\<lambda>acc (k, v). dict_set k v acc) d u"

text \<open>Truth value of \<open>d.get(k)\<close> in a condition.\<close>

fun truthy :: "jval option \<Rightarrow> bool" where
  "truthy None = False"
| "truthy (Some (JStr s)) = (s \<noteq> [])"
| "truthy (Some (JNum n)) = (n \<noteq> 0)"
| "truthy (Some (JBool b)) = b"
| "truthy (Some (JDict d)) = (d \<noteq> [])"

text \<open>
  \<open>head_object\<close> answers with the \<open>Restore\<close> header when the object has one, raises
  a \<open>ClientError\<close> with code \<open>NotFound\<close>, or raises something else.
\<close>

datatype head_result = HeadOk "string option" | HeadNotFound | HeadError string

datatype s3_call =
    HeadObject string
  | RestoreObject string string nat
  | GeneratePresignedUrl string string

text \<open>What the handlers of the retrieval path see of the world in one invocation.\<close>

record retrieval_world =
  rw_bucket_name :: "string option"
  head_object :: "string \<Rightarrow> head_result"
  restore_object_error :: "string option"
  presign_error :: "string option"
  presigned_url :: "string \<Rightarrow> string \<Rightarrow> string"
  now_utc :: string
  now_plus_24h :: string
  ttl_epoch :: int
  get_item_error :: "string option"
  put_item_fails :: bool
  update_item_fails :: bool
  fresh_uuid :: string

record history_item =
  storage_class :: "string option"
  hi_s3_key :: "string option"
  hi_archive_id :: "string option"

record db =
  downloads :: "string \<rightharpoonup> dict"
  history :: "string \<times> string \<rightharpoonup> history_item"

text \<open>
  \<open>AuditLogger.update_download_status\<close>: one \<open>update_item\<close>, which creates the item
  when the key is new; a \<open>ClientError\<close> of the write is logged and swallowed.
\<close>

definition update_download_status ::
    "retrieval_world \<Rightarrow> db \<Rightarrow> string \<Rightarrow> string \<Rightarrow> dict \<Rightarrow> string option \<Rightarrow> db" where
  "update_download_status w d download_id status details err =
     (if update_item_fails w then d
      else
       (let item = (case downloads d download_id of
                      None \<Rightarrow> [(''download_id'', JStr download_id)] | Some i \<Rightarrow> i);
            i1 = dict_set ''updated_at'' (JStr (now_utc w)) (dict_set ''status'' (JStr status) item);
            i2 = (if details \<noteq> [] then dict_set ''details'' (JDict details) i1 else i1);
            i3 = (case err of
                    None \<Rightarrow> i2
                  | Some e \<Rightarrow> if e \<noteq> [] then dict_set ''error'' (JStr e) i2 else i2)
        in d\<lparr>downloads := (downloads d)(download_id \<mapsto> i3)\<rparr>))"

text \<open>\<open>AuditLogger.create_download_operation\<close>: the new identifier, or the empty string
  when the write fails.\<close>

definition create_download_operation ::
    "retrieval_world \<Rightarrow> db \<Rightarrow> string \<Rightarrow> string \<Rightarrow> string \<Rightarrow> string \<Rightarrow> string \<Rightarrow> string \<times> db" where
  "create_download_operation w d repository_name backup_version user_id download_type source_location =
     (if put_item_fails w then ([], d)
      else
       (let download_id = fresh_uuid w;
            item = [(''download_id'', JStr download_id),
                    (''repository_name'', JStr repository_name),
                    (''backup_version'', JStr backup_version),
                    (''user_id'', JStr user_id),
                    (''download_type'', JStr download_type),
                    (''source_location'', JStr source_location),
                    (''status'', JStr ''requested''),
                    (''created_at'', JStr (now_utc w)),
                    (''expires_at'', JNum (ttl_epoch w))]
        in (download_id, d\<lparr>downloads := (downloads d)(download_id \<mapsto> item)\<rparr>)))"

text \<open>The file name \<open>handle_s3_download\<close> puts in the content disposition.\<close>

definition download_filename :: "string \<Rightarrow> string" where
  "download_filename key =
     (if str_in ''/'' key then
        (let parts = py_split key ''/'' in
         if length parts \<ge> 2
         then (if parts ! 0 \<in> set [''nightly'', ''final''] then parts ! 1 else parts ! 0) @ ''.tar.gz''
         else last (py_split key ''/''))
      else key)"

definition key_error :: "string \<Rightarrow> string" where
  "key_error k = [CHR 0x27] @ k @ [CHR 0x27]"

text \<open>
  \<open>handle_s3_download\<close>: \<open>Inl\<close> is the exception it re-raises after recording the
  failure, \<open>Inr\<close> the dictionary it returns.
\<close>

definition handle_s3_download ::
    "retrieval_world \<Rightarrow> db \<Rightarrow> string \<Rightarrow> string \<Rightarrow> (string + dict) \<times> db \<times> s3_call list" where
  "handle_s3_download w d download_id key =
     (case rw_bucket_name w of
        None \<Rightarrow>
          (Inl (key_error ''S3_BUCKET_NAME''),
           update_download_status w d download_id ''failed'' [] (Some (key_error ''S3_BUCKET_NAME'')), [])
      | Some bucket_name \<Rightarrow>
         (let disposition = ''attachment; filename='' @ [CHR 0x22] @ download_filename key @ [CHR 0x22];
              calls = [GeneratePresignedUrl key disposition] in
          case presign_error w of
            Some m \<Rightarrow> (Inl m, update_download_status w d download_id ''failed'' [] (Some m), calls)
          | None \<Rightarrow>
             (let download_url = presigned_url w key disposition in
              (Inr [(''status'', JStr ''completed''), (''download_url'', JStr download_url),
                    (''expires_in_hours'', JNum 24)],
               update_download_status w d download_id ''completed''
                 [(''download_url'', JStr download_url), (''expires_at'', JStr (now_plus_24h w))] None,
               calls))))"

text \<open>The table of published completion estimates, \<open>completion_times\<close>.\<close>

definition completion_times :: "(string \<times> string) list" where
  "completion_times =
     [(''Expedited'', ''1-5 minutes''), (''Standard'', ''3-5 hours''), (''Bulk'', ''5-12 hours'')]"

definition ongoing_true :: string where
  "ongoing_true = ''ongoing-request='' @ [CHR 0x22] @ ''true'' @ [CHR 0x22]"

definition ongoing_false :: string where
  "ongoing_false = ''ongoing-request='' @ [CHR 0x22] @ ''false'' @ [CHR 0x22]"

text \<open>
  The \<open>try\<close> block of \<open>handle_glacier_download\<close>. The function has the parameters
  \<open>download_id\<close>, \<open>archive_id\<close> and \<open>repository_name\<close> and assigns no
  \<open>request_body\<close>, so in
  \<open>request_body.get('retrieval_tier', 'Standard') if 'request_body' in locals() else 'Standard'\<close>
  the test is false in every call and \<open>retrieval_tier\<close> is \<open>'Standard'\<close>.
\<close>

definition handle_glacier_download_try ::
    "retrieval_world \<Rightarrow> db \<Rightarrow> string \<Rightarrow> string \<Rightarrow> string \<Rightarrow> (string + dict) \<times> db \<times> s3_call list" where
  "handle_glacier_download_try w d download_id archive_id repository_name =
     (case rw_bucket_name w of
        None \<Rightarrow> (Inl (key_error ''S3_BUCKET_NAME''), d, [])
      | Some bucket_name \<Rightarrow>
         (let key = archive_id; c1 = [HeadObject key] in
          case head_object w key of
            HeadNotFound \<Rightarrow> (Inl (''Object not found: '' @ key), d, c1)
          | HeadError m \<Rightarrow> (Inl m, d, c1)
          | HeadOk restore \<Rightarrow>
             (if restore \<noteq> None \<and> str_in ongoing_true (the restore) then
                (Inr [(''status'', JStr ''in_progress''),
                      (''restore_status'', JStr ''already_in_progress''),
                      (''estimated_completion'', JStr ''3-5 hours'')],
                 update_download_status w d download_id ''in_progress''
                   [(''restore_status'', JStr ''already_in_progress''),
                    (''estimated_completion'', JStr ''3-5 hours'')] None,
                 c1)
              else if restore \<noteq> None \<and> str_in ongoing_false (the restore) then
                (case handle_s3_download w d download_id key of
                   (r, d', c2) \<Rightarrow> (r, d', c1 @ c2))
              else
                (let retrieval_tier = ''Standard'';
                     tier = (if retrieval_tier \<in> set [''Expedited'', ''Standard'', ''Bulk'']
                             then retrieval_tier else ''Standard'');
                     c2 = c1 @ [RestoreObject key tier 7] in
                 case restore_object_error w of
                   Some m \<Rightarrow> (Inl m, d, c2)
                 | None \<Rightarrow>
                    (let estimated_time =
                           (case map_of completion_times retrieval_tier of
                              None \<Rightarrow> ''3-5 hours'' | Some t \<Rightarrow> t)
                     in (Inr [(''status'', JStr ''in_progress''),
                              (''restore_tier'', JStr retrieval_tier),
                              (''estimated_completion'', JStr estimated_time)],
                         update_download_status w d download_id ''in_progress''
                           [(''s3_key'', JStr key), (''restore_tier'', JStr retrieval_tier),
                            (''estimated_completion'', JStr estimated_time),
                            (''restore_days'', JNum 7)] None,
                         c2))))))"

text \<open>\<open>handle_glacier_download\<close>: the block and its handler, which records the failure
  and re-raises.\<close>

definition handle_glacier_download ::
    "retrieval_world \<Rightarrow> db \<Rightarrow> string \<Rightarrow> string \<Rightarrow> string \<Rightarrow> (string + dict) \<times> db \<times> s3_call list" where
  "handle_glacier_download w d download_id archive_id repository_name =
     (case handle_glacier_download_try w d download_id archive_id repository_name of
        (Inl e, d', calls) \<Rightarrow> (Inl e, update_download_status w d' download_id ''failed'' [] (Some e), calls)
      | (Inr r, d', calls) \<Rightarrow> (Inr r, d', calls))"

datatype api_response = ApiResponse nat dict

record request_body =
  rb_repository_name :: "string option"
  rb_backup_version :: "string option"
  rb_user_id :: "string option"
  rb_retrieval_tier :: "string option"

text \<open>
  \<open>initiate_download\<close>. The request body reaches this function only; neither handler
  it calls takes it, or the tier in it, as an argument.
\<close>

definition initiate_download ::
    "retrieval_world \<Rightarrow> db \<Rightarrow> request_body \<Rightarrow> api_response \<times> db \<times> s3_call list" where
  "initiate_download w d rb =
     (let user_id = (case rb_user_id rb of None \<Rightarrow> ''unknown'' | Some u \<Rightarrow> u) in
      case (rb_repository_name rb, rb_backup_version rb) of
        (Some repository_name, Some backup_version) \<Rightarrow>
          if repository_name = [] \<or> backup_version = [] then
            (ApiResponse 400 [(''error'', JStr ''repository_name and backup_version are required'')], d, [])
          else
          (case get_item_error w of
             Some m \<Rightarrow> (ApiResponse 500 [(''error'', JStr m)], d, [])
           | None \<Rightarrow>
          (case history d (repository_name, backup_version) of
             None \<Rightarrow> (ApiResponse 404 [(''error'', JStr ''Backup not found'')], d, [])
           | Some backup_item \<Rightarrow>
              (let cls = (case storage_class backup_item of None \<Rightarrow> ''s3'' | Some c \<Rightarrow> c);
                   key = (case hi_s3_key backup_item of None \<Rightarrow> [] | Some k \<Rightarrow> k);
                   download_type = (if cls = ''s3'' then ''s3_direct'' else ''glacier_retrieval'');
                   source_location =
                     (if cls = ''s3'' then key
                      else case hi_archive_id backup_item of None \<Rightarrow> key | Some a \<Rightarrow> a);
                   (download_id, d1) =
                     create_download_operation w d repository_name backup_version user_id
                       download_type source_location
               in if download_id = [] then
                    (ApiResponse 500 [(''error'', JStr ''Failed to create download operation'')], d1, [])
                  else
                    (case (if download_type = ''s3_direct''
                           then handle_s3_download w d1 download_id key
                           else handle_glacier_download w d1 download_id source_location repository_name) of
                       (Inl e, d2, calls) \<Rightarrow> (ApiResponse 500 [(''error'', JStr e)], d2, calls)
                     | (Inr result, d2, calls) \<Rightarrow>
                         (ApiResponse 200
                            [(''download_id'', JStr download_id),
                             (''download_type'', JStr download_type),
                             (''status'', (case dict_get result ''status'' of
                                             None \<Rightarrow> JStr ''requested'' | Some s \<Rightarrow> s)),
                             (''details'', JDict result)],
                          d2, calls)))))
      | _ \<Rightarrow>
          (ApiResponse 400 [(''error'', JStr ''repository_name and backup_version are required'')], d, []))"

text \<open>
  \<open>check_glacier_job_status\<close>. Every exception inside it is caught by its own handler,
  which answers \<open>{'status': 'in_progress'}\<close>. A \<open>Restore\<close> header with neither marker
  lets the function fall off its end and return \<open>None\<close>.
\<close>

definition still_in_progress :: "db \<Rightarrow> s3_call list \<Rightarrow> dict option \<times> db \<times> s3_call list" where
  "still_in_progress d calls = (Some [(''status'', JStr ''in_progress'')], d, calls)"

definition poll_failed :: "string \<Rightarrow> db \<Rightarrow> s3_call list \<Rightarrow> dict option \<times> db \<times> s3_call list" where
  "poll_failed msg d calls = (Some [(''status'', JStr ''failed''), (''error'', JStr msg)], d, calls)"

definition check_glacier_job_status ::
    "retrieval_world \<Rightarrow> db \<Rightarrow> jval \<Rightarrow> string \<Rightarrow> dict option \<times> db \<times> s3_call list" where
  "check_glacier_job_status w d job_id download_id =
     (case get_item_error w of
        Some m \<Rightarrow> still_in_progress d []
      | None \<Rightarrow>
     (case downloads d download_id of
        None \<Rightarrow> poll_failed ''Download operation not found'' d []
      | Some download_item \<Rightarrow>
     (case (case dict_get download_item ''details'' of
              None \<Rightarrow> Some [] | Some (JDict x) \<Rightarrow> Some x | Some other \<Rightarrow> None) of
        None \<Rightarrow> still_in_progress d []
      | Some details \<Rightarrow>
     (let key_val = (if truthy (dict_get details ''s3_key'') then dict_get details ''s3_key''
                     else dict_get download_item ''source_location'') in
      if \<not> truthy key_val then poll_failed ''S3 key not found in download details'' d []
      else
     (case rw_bucket_name w of
        None \<Rightarrow> still_in_progress d []
      | Some bucket_name \<Rightarrow>
     (case key_val of
        Some (JStr key) \<Rightarrow>
          (let c1 = [HeadObject key] in
           case head_object w key of
             HeadNotFound \<Rightarrow> poll_failed ''Object not found'' d c1
           | HeadError m \<Rightarrow> still_in_progress d c1
           | HeadOk None \<Rightarrow> poll_failed ''No restore information found'' d c1
           | HeadOk (Some restore_status) \<Rightarrow>
               if str_in ongoing_false restore_status then
                 (let disposition = ''attachment; filename='' @ [CHR 0x22]
                                      @ last (py_split key ''/'') @ [CHR 0x22];
                      c2 = c1 @ [GeneratePresignedUrl key disposition] in
                  case presign_error w of
                    Some m \<Rightarrow> still_in_progress d c2
                  | None \<Rightarrow>
                     (let download_url = presigned_url w key disposition in
                      (Some [(''status'', JStr ''completed''), (''download_url'', JStr download_url),
                             (''expires_in_hours'', JNum 24)],
                       update_download_status w d download_id ''completed''
                         [(''restore_completed'', JBool True), (''completed_at'', JStr (now_utc w)),
                          (''download_url'', JStr download_url),
                          (''expires_at'', JStr (now_plus_24h w))] None,
                       c2)))
               else if str_in ongoing_true restore_status then still_in_progress d c1
               else (None, d, c1))
      | _ \<Rightarrow> still_in_progress d []))))))"

text \<open>\<open>get_download_status\<close>, the poll.\<close>

definition get_download_status ::
    "retrieval_world \<Rightarrow> db \<Rightarrow> string \<Rightarrow> api_response \<times> db \<times> s3_call list" where
  "get_download_status w d download_id =
     (if download_id = [] then (ApiResponse 400 [(''error'', JStr ''Download ID is required'')], d, [])
      else
     (case get_item_error w of
        Some m \<Rightarrow> (ApiResponse 500 [(''error'', JStr m)], d, [])
      | None \<Rightarrow>
     (case downloads d download_id of
        None \<Rightarrow> (ApiResponse 404 [(''error'', JStr ''Download operation not found'')], d, [])
      | Some download_item \<Rightarrow>
          if dict_get download_item ''download_type'' = Some (JStr ''glacier_retrieval'')
             \<and> dict_get download_item ''status'' = Some (JStr ''in_progress'')
          then
            (case (case dict_get download_item ''details'' of
                     None \<Rightarrow> Some [] | Some (JDict x) \<Rightarrow> Some x | Some other \<Rightarrow> None) of
               None \<Rightarrow> (ApiResponse 500 [(''error'', JStr ''object has no attribute get'')], d, [])
             | Some details \<Rightarrow>
                 if truthy (dict_get details ''glacier_job_id'') then
                   (case check_glacier_job_status w d (the (dict_get details ''glacier_job_id'')) download_id of
                      (None, d', calls) \<Rightarrow>
                        (ApiResponse 500 [(''error'', JStr ''NoneType object is not iterable'')], d', calls)
                    | (Some updated_status, d', calls) \<Rightarrow>
                        (ApiResponse 200 (dict_update download_item updated_status), d', calls))
                 else (ApiResponse 200 download_item, d, []))
          else (ApiResponse 200 download_item, d, []))))"

text \<open>The status and the access handle a poll reports.\<close>

definition reported_status :: "api_response \<Rightarrow> jval option" where
  "reported_status r = (case r of ApiResponse code body \<Rightarrow> dict_get body ''status'')"

definition reported_handle :: "api_response \<Rightarrow> jval option" where
  "reported_handle r =
     (case r of ApiResponse code body \<Rightarrow>
        (case dict_get body ''details'' of
           Some (JDict details) \<Rightarrow> dict_get details ''download_url''
         | _ \<Rightarrow> None))"

definition detail_of :: "dict \<Rightarrow> string \<Rightarrow> jval option" where
  "detail_of body k =
     (case dict_get body ''details'' of Some (JDict details) \<Rightarrow> dict_get details k | _ \<Rightarrow> None)"

definition response_body :: "api_response \<Rightarrow> dict" where
  "response_body r = (case r of ApiResponse code body \<Rightarrow> body)"

text \<open>
  A world in which every service answers, with the cold-tier object not yet restored;
  a history with one backup in cold storage; and a request for it that selects the
  bulk tier.
\<close>

definition cold_world :: retrieval_world where
  "cold_world =
     \<lparr>rw_bucket_name = Some ''backups'', head_object = (\<lambda>k. HeadOk None),
      restore_object_error = None, presign_error = None,
      presigned_url = (\<lambda>k disposition. ''https://backups.s3.amazonaws.com/'' @ k @ ''?X-Amz-Expires=86400''),
      now_utc = ''2025-07-01T22:40:00+00:00'', now_plus_24h = ''2025-07-02T22:40:00+00:00'',
      ttl_epoch = 1754001600, get_item_error = None, put_item_fails = False,
      update_item_fails = False, fresh_uuid = ''d-0001''\<rparr>"

definition cold_db :: db where
  "cold_db =
     \<lparr>downloads = Map.empty,
      history = [(''demo'', ''nightly/2025-05-01-22-32'') \<mapsto>
        \<lparr>storage_class = Some ''glacier'',
         hi_s3_key = Some ''nightly/demo/2025-05-01-22-32.tar.gz'', hi_archive_id = None\<rparr>]\<rparr>"

definition bulk_request :: request_body where
  "bulk_request =
     \<lparr>rb_repository_name = Some ''demo'', rb_backup_version = Some ''nightly/2025-05-01-22-32'',
      rb_user_id = Some ''alice'', rb_retrieval_tier = Some ''Bulk''\<rparr>"

definition completed_item :: dict where
  "completed_item =
     [(''download_id'', JStr ''d-0003''), (''download_type'', JStr ''glacier_retrieval''),
      (''source_location'', JStr ''nightly/demo/2025-05-01-22-32.tar.gz''),
      (''status'', JStr ''completed''),
      (''details'', JDict [(''restore_completed'', JBool True),
                          (''download_url'', JStr ''https://backups.s3.amazonaws.com/signed'')])]"

definition completed_db :: db where
  "completed_db = \<lparr>downloads = [''d-0003'' \<mapsto> completed_item], history = Map.empty\<rparr>"

definition denied_world :: retrieval_world where
  "denied_world = cold_world\<lparr>head_object := (\<lambda>k. HeadError ''Access Denied'')\<rparr>"

definition missing_world :: retrieval_world where
  "missing_world = cold_world\<lparr>head_object := (\<lambda>k. HeadNotFound)\<rparr>"

text \<open>
  A request for the same backup that names no tier, and the table as
  \<open>initiate_download\<close> leaves it for that request: it holds the delayed operation
  \<open>d-0001\<close> the program has created, in progress.
\<close>

definition standard_request :: request_body where
  "standard_request =
     \<lparr>rb_repository_name = Some ''demo'', rb_backup_version = Some ''nightly/2025-05-01-22-32'',
      rb_user_id = Some ''alice'', rb_retrieval_tier = None\<rparr>"

definition created_db :: db where
  "created_db = fst (snd (initiate_download cold_world cold_db standard_request))"

text \<open>Two runs around midnight: the second starts before midnight, after the first has
  uploaded, and uploads after midnight.\<close>

definition before_midnight_world :: handler_world where
  "before_midnight_world =
     demo_world\<lparr>
       now_start := \<lparr>year = 2025, month = 7, day = 1, hour = 23, minute = 50, second = 0\<rparr>,
       backup := demo_backup_world\<lparr>
         now_upload := \<lparr>year = 2025, month = 7, day = 1, hour = 23, minute = 58, second = 0\<rparr>\<rparr>\<rparr>"

definition across_midnight_world :: handler_world where
  "across_midnight_world =
     demo_world\<lparr>
       now_start := \<lparr>year = 2025, month = 7, day = 1, hour = 23, minute = 59, second = 30\<rparr>,
       backup := demo_backup_world\<lparr>
         now_upload := \<lparr>year = 2025, month = 7, day = 2, hour = 0, minute = 5, second = 0\<rparr>\<rparr>\<rparr>"

section \<open>Properties of the string helpers\<close>

lemma str_in_sublist: "str_in p s \<longleftrightarrow> sublist p s"
  by (induction s) (auto simp: sublist_Cons_right)

lemma str_in_iff: "str_in p s \<longleftrightarrow> (\<exists>pre suf. s = pre @ p @ suf)"
  by (simp add: str_in_sublist sublist_def)

lemma lower_char_idem: "lower_char (lower_char c) = lower_char c"
  by (auto simp: lower_char_def less_eq_char_def)

lemma lower_idem: "lower (lower s) = lower s"
  by (simp add: lower_def lower_char_idem)

section \<open>Error classification\<close>

text \<open>
  C8 (as amended). The classifier is a total function of the message, so every message
  gets exactly one category, and it only looks at the lower-cased message. A message
  containing "no space left" is classified \<open>DISK_SPACE\<close>; a message containing
  "authentication failed" is classified \<open>AUTHENTICATION\<close> provided it contains neither
  of the disk-space patterns, which are tested first; a message containing none of the
  known patterns is classified \<open>UNKNOWN\<close>.
\<close>

theorem categorize_error_patterns:
  "(str_in ''no space left'' (lower m) \<longrightarrow> categorize_error m = ''DISK_SPACE'') \<and>
   (str_in ''authentication failed'' (lower m) \<and> \<not> str_in ''no space left'' (lower m)
      \<and> \<not> str_in ''insufficient disk space'' (lower m)
      \<longrightarrow> categorize_error m = ''AUTHENTICATION'') \<and>
   ((\<forall>p \<in> set known_patterns. \<not> str_in p (lower m)) \<longrightarrow> categorize_error m = ''UNKNOWN'') \<and>
   categorize_error (lower m) = categorize_error m"
  by (simp add: categorize_error_def known_patterns_def lower_idem)

theorem categorize_error_patterns_witness:
  "str_in ''no space left'' (lower ''fatal: No Space Left on device'')
     \<and> categorize_error ''fatal: No Space Left on device'' = ''DISK_SPACE''
   \<and> str_in ''authentication failed'' (lower ''remote: Authentication FAILED for repo'')
     \<and> \<not> str_in ''no space left'' (lower ''remote: Authentication FAILED for repo'')
     \<and> \<not> str_in ''insufficient disk space'' (lower ''remote: Authentication FAILED for repo'')
     \<and> categorize_error ''remote: Authentication FAILED for repo'' = ''AUTHENTICATION''
   \<and> \<not> (\<exists>p \<in> set known_patterns. str_in p (lower ''Segmentation fault''))
     \<and> categorize_error ''Segmentation fault'' = ''UNKNOWN''"
proof -
  have h1: "str_in ''no space left'' (lower ''fatal: No Space Left on device'')"
    by code_simp
  have h2: "str_in ''authentication failed'' (lower ''remote: Authentication FAILED for repo'')
     \<and> \<not> str_in ''no space left'' (lower ''remote: Authentication FAILED for repo'')
     \<and> \<not> str_in ''insufficient disk space'' (lower ''remote: Authentication FAILED for repo'')"
    by code_simp
  have h3: "\<forall>p \<in> set known_patterns. \<not> str_in p (lower ''Segmentation fault'')"
    by code_simp
  show ?thesis
    using h1 h2 h3
      categorize_error_patterns [of "''fatal: No Space Left on device''"]
      categorize_error_patterns [of "''remote: Authentication FAILED for repo''"]
      categorize_error_patterns [of "''Segmentation fault''"]
    by blast
qed

text \<open>
  The claim as first stated fails: a message that contains both "authentication failed"
  and "no space left" is classified by the earlier disk-space branch.
\<close>

theorem categorize_error_auth_counterexample:
  "str_in ''authentication failed'' (lower ''Authentication failed: No space left on device'')
   \<and> categorize_error ''Authentication failed: No space left on device'' \<noteq> ''AUTHENTICATION''"
  by code_simp

section \<open>Pre-clone access validation\<close>

text \<open>
  C10. The access check fails open: it answers \<open>False\<close> exactly when the import
  succeeded, the clone URL yielded an API URL, and the API answered 404 or 403. On every
  other status, on a clone URL without owner and repository, and on any exception during
  the check it answers \<open>True\<close>.
\<close>


theorem validate_repository_access_fail_open:
  "validate_repository_access env repo token = False \<longleftrightarrow>
     import_requests_error env = None \<and>
     (\<exists>api_url. repo_api_url (repo_clone_url repo) = Some api_url \<and>
        (requests_get env api_url [(''Authorization'', ''token '' @ token)] = Response 404 \<or>
         requests_get env api_url [(''Authorization'', ''token '' @ token)] = Response 403))"
  by (auto simp: validate_repository_access_def split: option.splits http_result.splits)

lemma repo_api_url_example: "repo_api_url ''https://github.com/acme/widgets.git'' = Some ''https://api.github.com/repos/acme/widgets''"
  by code_simp

theorem validate_repository_access_fail_open_witness:
  "validate_repository_access
      \<lparr>import_requests_error = None, requests_get = (\<lambda>u h. Response 404)\<rparr>
      \<lparr>repo_name = ''widgets'', repo_clone_url = ''https://github.com/acme/widgets.git'',
        repo_archived = False, repo_size = Some 50000\<rparr> ''t0ken'' = False
   \<and> validate_repository_access
      \<lparr>import_requests_error = None, requests_get = (\<lambda>u h. Response 500)\<rparr>
      \<lparr>repo_name = ''widgets'', repo_clone_url = ''https://github.com/acme/widgets.git'',
        repo_archived = False, repo_size = Some 50000\<rparr> ''t0ken'' = True
   \<and> validate_repository_access
      \<lparr>import_requests_error = None, requests_get = (\<lambda>u h. RequestError ''connection reset'')\<rparr>
      \<lparr>repo_name = ''widgets'', repo_clone_url = ''https://github.com/acme/widgets.git'',
        repo_archived = False, repo_size = Some 50000\<rparr> ''t0ken'' = True"
  using
    validate_repository_access_fail_open [of
      "\<lparr>import_requests_error = None, requests_get = (\<lambda>u h. Response 404)\<rparr>"
      "\<lparr>repo_name = ''widgets'', repo_clone_url = ''https://github.com/acme/widgets.git'',
        repo_archived = False, repo_size = Some 50000\<rparr>" "''t0ken''"]
    validate_repository_access_fail_open [of
      "\<lparr>import_requests_error = None, requests_get = (\<lambda>u h. Response 500)\<rparr>"
      "\<lparr>repo_name = ''widgets'', repo_clone_url = ''https://github.com/acme/widgets.git'',
        repo_archived = False, repo_size = Some 50000\<rparr>" "''t0ken''"]
    validate_repository_access_fail_open [of
      "\<lparr>import_requests_error = None, requests_get = (\<lambda>u h. RequestError ''connection reset'')\<rparr>"
      "\<lparr>repo_name = ''widgets'', repo_clone_url = ''https://github.com/acme/widgets.git'',
        repo_archived = False, repo_size = Some 50000\<rparr>" "''t0ken''"]
  by (simp add: repo_api_url_example)

section \<open>The disk-space guard\<close>

lemmas guard_eval = cleanup_old_temp_directories_def cleanup_item_def entries_of_def
  os_path_join_def Let_def suffix_to_prefix check_disk_space_def check_disk_space_try_def
  available_mb_def still_insufficient_def

lemma check_disk_space_never_raises:
  "fst (check_disk_space current_time fs path required_mb) = Inr ()"
  by (auto simp: check_disk_space_def split: prod.splits sum.splits)

lemma check_disk_space_try_raises:
  "still_insufficient current_time fs path required_mb \<Longrightarrow>
   fst (check_disk_space_try current_time fs path required_mb) = Inl ''Insufficient disk space''"
  by (simp add: still_insufficient_def check_disk_space_try_def Let_def)

text \<open>
  C1. With 10 MB free in \<open>/tmp\<close>, nothing to reclaim and 1000 MB required, the space
  measured after the reclamation pass is still insufficient and the \<open>try\<close> block
  raises its \<open>RuntimeError\<close>; the handler around the block catches it, and
  \<open>check_disk_space\<close> returns normally instead of failing.
\<close>

theorem check_disk_space_returns_when_insufficient:
  "still_insufficient 8200 full_tmp ''/tmp'' 1000
   \<and> fst (check_disk_space_try 8200 full_tmp ''/tmp'' 1000) = Inl ''Insufficient disk space''
   \<and> fst (check_disk_space 8200 full_tmp ''/tmp'' 1000) = Inr ()"
  by (simp add: full_tmp_def guard_eval)

subsection \<open>Scratch directory names\<close>

lemma str_nat_last: "str_nat n \<noteq> [] \<and> (\<exists>d<10. last (str_nat n) = digit_char d)"
proof (cases "n < 10")
  case True
  then show ?thesis by (subst (1 2) str_nat.simps) auto
next
  case False
  then show ?thesis
    by (subst (1 2) str_nat.simps) (auto intro!: exI [of _ "n mod 10"])
qed

lemma str_int_last: "str_int i \<noteq> [] \<and> (\<exists>d<10. last (str_int i) = digit_char d)"
  using str_nat_last by (auto simp: str_int_def)

lemma scratch_dir_name_last: "\<exists>d<10. last (scratch_dir_name r e) = digit_char d"
  using str_int_last [of e] by (simp add: scratch_dir_name_def)

lemma digit_char_range: "d < 10 \<Longrightarrow> of_char (digit_char d) = 48 + d"
  by (simp add: digit_char_def)

lemma not_scratch_my_data: "\<not> is_scratch_dir_name ''my_data''"
proof
  assume "is_scratch_dir_name ''my_data''"
  then obtain r e where eq: "''my_data'' = scratch_dir_name r e"
    by (auto simp: is_scratch_dir_name_def)
  obtain d where d: "d < 10" "last (scratch_dir_name r e) = digit_char d"
    using scratch_dir_name_last by blast
  have "last ''my_data'' = CHR ''a''" by simp
  with eq d have "CHR ''a'' = digit_char d" by simp
  then have "(of_char (CHR ''a'') :: nat) = of_char (digit_char d)" by simp
  with d(1) show False by (simp add: digit_char_range)
qed

text \<open>
  C4. A two-hour-old directory \<open>my_data\<close> under \<open>/tmp\<close> is not named after the
  scratch-directory convention (no repository name followed by an underscore and the
  epoch seconds gives that name), yet the reclamation pass removes it: the loop tests
  only that the name contains an underscore.
\<close>

theorem cleanup_removes_foreign_directory:
  "\<not> is_scratch_dir_name ''my_data''
   \<and> ''my_data'' \<in> set (map entry_name (entries_of foreign_tmp))
   \<and> ''my_data'' \<notin> set (map entry_name
        (entries_of (cleanup_old_temp_directories 8200 ''/tmp'' foreign_tmp)))"
  by (simp add: not_scratch_my_data foreign_tmp_def guard_eval)

section \<open>The archived-repository gate\<close>

lemma handler_failure_no_step:
  "\<forall>e \<in> set effs. \<not> is_backup_step e \<Longrightarrow>
   \<forall>e \<in> set (snd (handler_failure ev m effs)). \<not> is_backup_step e"
  by (simp add: handler_failure_def Let_def)




text \<open>The key of a successful run: the date read by the handler, the time of day read
  at upload.\<close>

lemma handler_success_key:
  assumes "success (fst (lambda_handler w ev))"
  shows "\<exists>name. ev_name ev = Some name \<and>
     s3_key (fst (lambda_handler w ev)) =
       Some (s3_key_of name (strftime_Ymd (now_start w)) (strftime_HM (now_upload (backup w))))"
  using assms
  by (auto simp: lambda_handler_def handler_failure_def failed_outcome_def skipped_outcome_def
        success_outcome_def backup_single_repository_def backup_try_def Let_def
      split: option.splits sum.splits prod.splits if_splits)

text \<open>The access check gates the clone: a refused check raises before any clone, an
  accepted one lets the clone start.\<close>

lemma access_gate:
  "makedirs_error w = None \<Longrightarrow>
   (\<exists>d. Clone (repo_clone_url repo) d \<in> set (snd (backup_single_repository w repo bucket token date_str)))
     \<longleftrightarrow> validate_repository_access (access w) repo token"
  by (auto simp: backup_single_repository_def backup_try_def Let_def
      split: option.splits sum.splits prod.splits)

section \<open>Order of the storage keys\<close>

subsection \<open>Decimal fields of equal width are ordered as their numbers\<close>

lemma base10_less:
  "ra < 10 \<Longrightarrow> rb < 10 \<Longrightarrow> 10 * qa + ra < 10 * qb + (rb::nat) \<longleftrightarrow> qa < qb \<or> (qa = qb \<and> ra < rb)"
  by linarith

lemma divmod10_less:
  "(a::nat) < b \<longleftrightarrow> a div 10 < b div 10 \<or> (a div 10 = b div 10 \<and> a mod 10 < b mod 10)"
  using base10_less [of "a mod 10" "b mod 10" "a div 10" "b div 10"] by simp

lemma divmod10_eq: "(a::nat) = b \<longleftrightarrow> a div 10 = b div 10 \<and> a mod 10 = b mod 10"
  by (metis div_mult_mod_eq)

lemma lex_append_same: "xs @ ys < xs @ zs \<longleftrightarrow> ys < (zs :: 'a::order list)"
  by (induction xs) auto

lemma lex_append_block:
  "length a = length b \<Longrightarrow> a @ ys < b @ zs \<longleftrightarrow> a < b \<or> (a = b \<and> ys < (zs :: 'a::order list))"
  by (induction a b rule: list_induct2) auto

lemma digit_char_less: "a < 10 \<Longrightarrow> b < 10 \<Longrightarrow> digit_char a < digit_char b \<longleftrightarrow> a < b"
  by (simp add: less_char_def digit_char_range)

lemma digit_char_eq: "a < 10 \<Longrightarrow> b < 10 \<Longrightarrow> digit_char a = digit_char b \<longleftrightarrow> a = b"
  by (metis digit_char_range add_left_cancel)

lemma str_nat_small: "n < 10 \<Longrightarrow> str_nat n = [digit_char n]"
  by (subst str_nat.simps) simp

lemma str_nat_step: "\<not> n < 10 \<Longrightarrow> str_nat n = str_nat (n div 10) @ [digit_char (n mod 10)]"
  by (subst str_nat.simps) simp

lemma str_nat_nonempty: "str_nat n \<noteq> []"
  by (subst str_nat.simps) simp

lemma str_nat_length_one: "length (str_nat n) = Suc 0 \<longleftrightarrow> n < 10"
  by (cases "n < 10") (simp_all add: str_nat_small str_nat_step str_nat_nonempty)

lemma str_nat_cmp:
  "length (str_nat n) = length (str_nat m) \<Longrightarrow>
   (str_nat n < str_nat m \<longleftrightarrow> n < m) \<and> (str_nat n = str_nat m \<longleftrightarrow> n = m)"
proof (induction n arbitrary: m rule: str_nat.induct)
  case (1 n)
  show ?case
  proof (cases "n < 10")
    case True
    then have "length (str_nat n) = Suc 0" by (simp add: str_nat_length_one)
    with "1.prems" have "length (str_nat m) = Suc 0" by simp
    then have m: "m < 10" using str_nat_length_one [of m] by blast
    with True show ?thesis
      by (simp add: str_nat_small digit_char_less digit_char_eq)
  next
    case False
    then have "length (str_nat n) \<noteq> Suc 0" by (simp add: str_nat_length_one)
    with "1.prems" have "length (str_nat m) \<noteq> Suc 0" by simp
    then have m: "\<not> m < 10" using str_nat_length_one [of m] by blast
    have len: "length (str_nat (n div 10)) = length (str_nat (m div 10))"
      using "1.prems" False m by (simp add: str_nat_step)
    note ih = "1.IH" [OF False len]
    have r: "n mod 10 < 10" "m mod 10 < 10" by simp_all
    have less: "str_nat n < str_nat m \<longleftrightarrow> n < m"
      using ih len r False m
      by (simp add: str_nat_step lex_append_block digit_char_less divmod10_less [of n m])
    have eq: "str_nat n = str_nat m \<longleftrightarrow> n = m"
      using ih len r False m
      by (simp add: str_nat_step digit_char_eq divmod10_eq [of n m])
    from less eq show ?thesis by simp
  qed
qed

lemma digit_char_0: "digit_char 0 = CHR 0x30"
  by code_simp

lemma pad2_length: "n < 100 \<Longrightarrow> length (pad2 n) = 2"
  by (cases "n < 10") (simp_all add: pad2_def str_nat_small str_nat_step)

lemma pad2_as_digits: "n < 100 \<Longrightarrow> pad2 n = [digit_char (n div 10), digit_char (n mod 10)]"
  by (cases "n < 10") (simp_all add: pad2_def str_nat_small str_nat_step digit_char_0 [symmetric])

lemma pad2_less: "a < 100 \<Longrightarrow> b < 100 \<Longrightarrow> pad2 a < pad2 b \<longleftrightarrow> a < b"
proof -
  assume a: "a < 100" "b < 100"
  have "a div 10 < 10" "b div 10 < 10" "a mod 10 < 10" "b mod 10 < 10" using a by simp_all
  then show ?thesis
    using a by (simp add: pad2_as_digits digit_char_less digit_char_eq divmod10_less [of a b])
qed

lemma pad2_eq: "a < 100 \<Longrightarrow> b < 100 \<Longrightarrow> pad2 a = pad2 b \<longleftrightarrow> a = b"
proof -
  assume a: "a < 100" "b < 100"
  have "a div 10 < 10" "b div 10 < 10" "a mod 10 < 10" "b mod 10 < 10" using a by simp_all
  then show ?thesis
    using a by (simp add: pad2_as_digits digit_char_eq divmod10_eq [of a b])
qed

lemma year_length: "1000 \<le> y \<Longrightarrow> y \<le> 9999 \<Longrightarrow> length (str_nat y) = 4"
proof -
  assume a: "1000 \<le> y" "y \<le> 9999"
  have 1: "str_nat y = str_nat (y div 10) @ [digit_char (y mod 10)]"
    using a by (intro str_nat_step) simp
  have 2: "str_nat (y div 10) = str_nat (y div 10 div 10) @ [digit_char (y div 10 mod 10)]"
    using a by (intro str_nat_step) simp
  have 3: "str_nat (y div 10 div 10) =
      str_nat (y div 10 div 10 div 10) @ [digit_char (y div 10 div 10 mod 10)]"
    using a by (intro str_nat_step) simp
  have 4: "str_nat (y div 10 div 10 div 10) = [digit_char (y div 10 div 10 div 10)]"
    using a by (intro str_nat_small) simp
  show ?thesis unfolding 1 2 3 4 by simp
qed

subsection \<open>Keys of one repository\<close>

lemma key_order:
  assumes v: "valid_datetime s1" "valid_datetime u1" "valid_datetime s2" "valid_datetime u2"
    and d: "same_day s1 u1" "same_day s2 u2"
    and m: "minute_before u1 u2"
  shows "s3_key_of r (strftime_Ymd s1) (strftime_HM u1)
           < s3_key_of r (strftime_Ymd s2) (strftime_HM u2)"
proof -
  have ly: "length (str_nat (year s1)) = length (str_nat (year s2))"
    using v by (simp add: valid_datetime_def year_length)
  have b: "month s1 < 100" "month s2 < 100" "day s1 < 100" "day s2 < 100"
    "hour u1 < 100" "hour u2 < 100" "minute u1 < 100" "minute u2 < 100"
    using v by (simp_all add: valid_datetime_def)
  have l2: "length (pad2 (month s1)) = length (pad2 (month s2))"
    "length (pad2 (day s1)) = length (pad2 (day s2))"
    "length (pad2 (hour u1)) = length (pad2 (hour u2))"
    "length (pad2 (minute u1)) = length (pad2 (minute u2))"
    using b by (simp_all add: pad2_length)
  have tail: "pad2 (minute u1) @ ''.tar.gz'' < pad2 (minute u2) @ ''.tar.gz''
      \<longleftrightarrow> minute u1 < minute u2"
    using b l2 by (simp add: lex_append_block pad2_less)
  show ?thesis
    using m d b
    unfolding s3_key_of_def strftime_Ymd_def strftime_HM_def
    apply (simp only: append_assoc lex_append_same)
    apply (simp only: lex_append_block [OF ly] lex_append_block [OF l2(1)]
        lex_append_block [OF l2(2)] lex_append_block [OF l2(3)] lex_append_same
        str_nat_cmp [OF ly] pad2_less pad2_eq tail)
    apply (auto simp: minute_before_def same_day_def)
    done
qed

lemma digit_chars:
  "digit_char 0 = CHR ''0''" "digit_char 1 = CHR ''1''" "digit_char 2 = CHR ''2''"
  "digit_char 3 = CHR ''3''" "digit_char 4 = CHR ''4''" "digit_char 5 = CHR ''5''"
  "digit_char 6 = CHR ''6''" "digit_char 7 = CHR ''7''" "digit_char 8 = CHR ''8''"
  "digit_char 9 = CHR ''9''" "digit_char (Suc 0) = CHR ''1''"
  by code_simp+

lemmas render_eval = strftime_Ymd_def strftime_HM_def s3_key_of_def pad2_def
  str_nat_small str_nat_step digit_chars

lemma validate_always_ok:
  "requests_get env = (\<lambda>u h. Response 200) \<Longrightarrow> validate_repository_access env repo token"
  by (simp add: validate_repository_access_def split: option.splits)

lemmas handler_eval = lambda_handler_def backup_single_repository_def backup_try_def
  validate_always_ok success_outcome_def Let_def demo_world_def demo_backup_world_def
  demo_event_def same_minute_world_def next_minute_world_def

lemma demo_key:
  "s3_key (fst (lambda_handler demo_world demo_event)) = Some ''nightly/demo/2025-07-01-22-32.tar.gz''
   \<and> success (fst (lambda_handler demo_world demo_event))"
  by (simp add: handler_eval render_eval)

lemma same_minute_key:
  "s3_key (fst (lambda_handler same_minute_world demo_event)) = Some ''nightly/demo/2025-07-01-22-32.tar.gz''
   \<and> success (fst (lambda_handler same_minute_world demo_event))"
  by (simp add: handler_eval render_eval)

lemma next_minute_key:
  "s3_key (fst (lambda_handler next_minute_world demo_event)) = Some ''nightly/demo/2025-07-01-22-33.tar.gz''
   \<and> success (fst (lambda_handler next_minute_world demo_event))"
  by (simp add: handler_eval render_eval)

text \<open>
  C5 (as amended). Take two successful backups of one repository, each of which reads
  its date string and its upload time on the same calendar day, with four-digit years.
  If the second uploads in a later calendar minute than the first, its key is strictly
  greater in the lexicographic order of strings.
\<close>

theorem successive_backup_keys_increase:
  assumes ok: "success (fst (lambda_handler w1 ev1))" "success (fst (lambda_handler w2 ev2))"
    and same: "ev_name ev1 = ev_name ev2"
    and v: "valid_datetime (now_start w1)" "valid_datetime (now_upload (backup w1))"
           "valid_datetime (now_start w2)" "valid_datetime (now_upload (backup w2))"
    and d: "same_day (now_start w1) (now_upload (backup w1))"
           "same_day (now_start w2) (now_upload (backup w2))"
    and m: "minute_before (now_upload (backup w1)) (now_upload (backup w2))"
  shows "\<exists>k1 k2. s3_key (fst (lambda_handler w1 ev1)) = Some k1 \<and>
                 s3_key (fst (lambda_handler w2 ev2)) = Some k2 \<and> k1 < k2"
proof -
  obtain n1 where k1: "ev_name ev1 = Some n1"
    "s3_key (fst (lambda_handler w1 ev1)) =
       Some (s3_key_of n1 (strftime_Ymd (now_start w1)) (strftime_HM (now_upload (backup w1))))"
    using handler_success_key [OF ok(1)] by blast
  obtain n2 where k2: "ev_name ev2 = Some n2"
    "s3_key (fst (lambda_handler w2 ev2)) =
       Some (s3_key_of n2 (strftime_Ymd (now_start w2)) (strftime_HM (now_upload (backup w2))))"
    using handler_success_key [OF ok(2)] by blast
  have "n1 = n2" using same k1(1) k2(1) by simp
  then show ?thesis
    using k1(2) k2(2) key_order [OF v d m, of n1] by simp
qed

theorem successive_backup_keys_increase_witness:
  "minute_before (now_upload (backup demo_world)) (now_upload (backup next_minute_world))
   \<and> s3_key (fst (lambda_handler demo_world demo_event)) = Some ''nightly/demo/2025-07-01-22-32.tar.gz''
   \<and> s3_key (fst (lambda_handler next_minute_world demo_event)) = Some ''nightly/demo/2025-07-01-22-33.tar.gz''
   \<and> ''nightly/demo/2025-07-01-22-32.tar.gz'' < ''nightly/demo/2025-07-01-22-33.tar.gz''"
proof -
  have v: "valid_datetime (now_start demo_world)" "valid_datetime (now_upload (backup demo_world))"
      "valid_datetime (now_start next_minute_world)"
      "valid_datetime (now_upload (backup next_minute_world))"
    by (simp_all add: valid_datetime_def demo_world_def demo_backup_world_def next_minute_world_def)
  have d: "same_day (now_start demo_world) (now_upload (backup demo_world))"
      "same_day (now_start next_minute_world) (now_upload (backup next_minute_world))"
    by (simp_all add: same_day_def demo_world_def demo_backup_world_def next_minute_world_def)
  have m: "minute_before (now_upload (backup demo_world)) (now_upload (backup next_minute_world))"
    by (simp add: minute_before_def demo_world_def demo_backup_world_def next_minute_world_def)
  from successive_backup_keys_increase [of demo_world demo_event next_minute_world demo_event,
      OF _ _ _ v d m] demo_key next_minute_key m
  show ?thesis by simp
qed

text \<open>
  The claim as first stated fails: the key has the resolution of a minute, so a second
  backup that starts after the first has uploaded, within the same minute, gets the
  same key.
\<close>

theorem same_minute_keys_counterexample:
  "success (fst (lambda_handler demo_world demo_event))
   \<and> success (fst (lambda_handler same_minute_world demo_event))
   \<and> before (now_upload (backup demo_world)) (now_start same_minute_world)
   \<and> s3_key (fst (lambda_handler demo_world demo_event)) = Some ''nightly/demo/2025-07-01-22-32.tar.gz''
   \<and> s3_key (fst (lambda_handler same_minute_world demo_event)) = Some ''nightly/demo/2025-07-01-22-32.tar.gz''
   \<and> \<not> ''nightly/demo/2025-07-01-22-32.tar.gz'' < ''nightly/demo/2025-07-01-22-32.tar.gz''"
  using demo_key same_minute_key
  by (simp add: before_def minute_before_def same_minute_def same_day_def
      demo_world_def demo_backup_world_def same_minute_world_def)

text \<open>
  When a run reads its date before midnight and its upload time after, the key carries
  the old date with the new time of day, and sorts before the key of the earlier run.
\<close>

lemma midnight_crossing_key_decreases:
  "before (now_upload (backup before_midnight_world)) (now_start across_midnight_world)
   \<and> s3_key (fst (lambda_handler before_midnight_world demo_event))
       = Some ''nightly/demo/2025-07-01-23-58.tar.gz''
   \<and> s3_key (fst (lambda_handler across_midnight_world demo_event))
       = Some ''nightly/demo/2025-07-01-00-05.tar.gz''
   \<and> ''nightly/demo/2025-07-01-00-05.tar.gz'' < ''nightly/demo/2025-07-01-23-58.tar.gz''"
  by (simp add: before_def minute_before_def same_minute_def same_day_def
      before_midnight_world_def across_midnight_world_def handler_eval render_eval)

section \<open>Migration to cold storage\<close>

lemma metadata_key_neq: "metadata_key_of k \<noteq> k"
proof
  assume "metadata_key_of k = k"
  then have "length (metadata_key_of k) = length k" by simp
  then show False by (simp add: metadata_key_of_def)
qed

text \<open>
  C7. For a hot object that exists, the migration calls download, upload to cold
  storage, the write of the archive record and the deletion of the hot object in this
  order, stopping at the first call that fails, and making all four when it succeeds.
  After every call, failed or not, a copy of the body is addressable, and at the
  deletion the archive record is already persisted and leads to the cold copy. The
  stores after a call are the stores a crash right after it would leave.
\<close>

theorem archive_deletes_hot_object_last:
  assumes hot: "s3_objects st (bi_key info) = Some body"
  shows "prefix (map fst (snd (archive_single_backup w st info)))
           [DownloadFileobj (bi_key info), UploadArchive (bi_key info),
            PutObject (metadata_key_of (bi_key info)), DeleteObject (bi_key info)]
       \<and> (ar_success (fst (archive_single_backup w st info)) \<longrightarrow>
            map fst (snd (archive_single_backup w st info)) =
              [DownloadFileobj (bi_key info), UploadArchive (bi_key info),
               PutObject (metadata_key_of (bi_key info)), DeleteObject (bi_key info)])
       \<and> (\<forall>(c, s) \<in> set (snd (archive_single_backup w st info)).
            addressable s (bi_key info) body \<and>
            (c = DeleteObject (bi_key info) \<longrightarrow> archive_record_persisted s (bi_key info) body))"
  using hot metadata_key_neq [of "bi_key info"]
  by (auto simp: archive_single_backup_def archive_failed_def Let_def addressable_def
        archive_record_persisted_def
      split: option.splits sum.splits)

theorem archive_deletes_hot_object_last_witness:
  "s3_objects hot_store (bi_key demo_backup_info) = Some (Blob ''archive bytes'')
   \<and> ar_success (fst (archive_single_backup working_archive_world hot_store demo_backup_info))
   \<and> map fst (snd (archive_single_backup working_archive_world hot_store demo_backup_info)) =
      [DownloadFileobj ''nightly/demo/2025-05-01-22-32.tar.gz'',
       UploadArchive ''nightly/demo/2025-05-01-22-32.tar.gz'',
       PutObject ''archived/nightly/demo/2025-05-01-22-32.tar.gz.metadata.json'',
       DeleteObject ''nightly/demo/2025-05-01-22-32.tar.gz'']"
proof -
  have h: "s3_objects hot_store (bi_key demo_backup_info) = Some (Blob ''archive bytes'')"
    by (simp add: hot_store_def demo_backup_info_def)
  have s: "ar_success (fst (archive_single_backup working_archive_world hot_store demo_backup_info))"
    by (simp add: archive_single_backup_def Let_def hot_store_def demo_backup_info_def
        working_archive_world_def)
  from archive_deletes_hot_object_last [OF h, of working_archive_world] h s
  show ?thesis by (simp add: demo_backup_info_def metadata_key_of_def)
qed

section \<open>Download operations\<close>

lemma dict_get_set: "dict_get (dict_set k v d) k' = (if k' = k then Some v else dict_get d k')"
  by (induction d) (auto simp: dict_get_def)

text \<open>
  C9. For a stored operation whose status is completed, two consecutive polls return
  the same response, with the same status and the same access handle; the table is
  left as it was and no call to the object store is made, so the handle is the stored
  one and is not derived again. When the table can be read the response is the stored
  item, with status completed.
\<close>

theorem completed_poll_is_stable:
  assumes item: "downloads d download_id = Some item"
    and st: "dict_get item ''status'' = Some (JStr ''completed'')"
  shows "get_download_status w d download_id = (r1, d1, c1) \<and>
         get_download_status w d1 download_id = (r2, d2, c2) \<longrightarrow>
           r2 = r1 \<and> reported_status r2 = reported_status r1 \<and>
           reported_handle r2 = reported_handle r1 \<and>
           d1 = d \<and> d2 = d \<and> c1 = [] \<and> c2 = [] \<and>
           (download_id \<noteq> [] \<and> get_item_error w = None \<longrightarrow>
              r1 = ApiResponse 200 item \<and> reported_status r1 = Some (JStr ''completed'') \<and>
              reported_handle r1 = detail_of item ''download_url'')"
  using item st
  by (auto simp: get_download_status_def reported_status_def reported_handle_def detail_of_def
      split: option.splits)

theorem completed_poll_is_stable_witness:
  "downloads completed_db ''d-0003'' = Some completed_item
   \<and> dict_get completed_item ''status'' = Some (JStr ''completed'')
   \<and> get_download_status cold_world completed_db ''d-0003'' = (ApiResponse 200 completed_item, completed_db, [])
   \<and> reported_handle (ApiResponse 200 completed_item) = Some (JStr ''https://backups.s3.amazonaws.com/signed'')"
proof -
  have a: "downloads completed_db ''d-0003'' = Some completed_item"
    by (simp add: completed_db_def)
  have b: "dict_get completed_item ''status'' = Some (JStr ''completed'')"
    by (simp add: completed_item_def dict_get_def)
  obtain r1 d1 c1 where p1: "get_download_status cold_world completed_db ''d-0003'' = (r1, d1, c1)"
    by (cases "get_download_status cold_world completed_db ''d-0003''") auto
  obtain r2 d2 c2 where p2: "get_download_status cold_world d1 ''d-0003'' = (r2, d2, c2)"
    by (cases "get_download_status cold_world d1 ''d-0003''") auto
  have "r1 = ApiResponse 200 completed_item \<and> d1 = completed_db \<and> c1 = []"
    using completed_poll_is_stable [OF a b, of cold_world r1 d1 c1 r2 d2 c2] p1 p2
    by (simp add: cold_world_def)
  with a b p1 show ?thesis
    by (simp add: reported_handle_def completed_item_def dict_get_def)
qed

lemmas retrieval_eval = initiate_download_def create_download_operation_def
  handle_glacier_download_def handle_glacier_download_try_def update_download_status_def
  get_download_status_def check_glacier_job_status_def still_in_progress_def poll_failed_def
  completion_times_def dict_get_def dict_update_def detail_of_def response_body_def
  reported_status_def Let_def

text \<open>
  C2. A download request for a backup in cold storage, not yet restored, that selects
  the tier \<open>Bulk\<close>: the operation becomes in progress, but the restore is issued
  with the tier \<open>Standard\<close>, and the estimate returned and persisted is
  "3-5 hours", not "5-12 hours".
\<close>

theorem bulk_request_restored_as_standard:
  "rb_retrieval_tier bulk_request = Some ''Bulk''
   \<and> reported_status (fst (initiate_download cold_world cold_db bulk_request)) = Some (JStr ''in_progress'')
   \<and> detail_of (response_body (fst (initiate_download cold_world cold_db bulk_request))) ''restore_tier''
        = Some (JStr ''Standard'')
   \<and> detail_of (response_body (fst (initiate_download cold_world cold_db bulk_request))) ''estimated_completion''
        = Some (JStr ''3-5 hours'')
   \<and> snd (snd (initiate_download cold_world cold_db bulk_request))
        = [HeadObject ''nightly/demo/2025-05-01-22-32.tar.gz'',
           RestoreObject ''nightly/demo/2025-05-01-22-32.tar.gz'' ''Standard'' 7]
   \<and> detail_of (the (downloads (fst (snd (initiate_download cold_world cold_db bulk_request))) ''d-0001''))
        ''estimated_completion'' = Some (JStr ''3-5 hours'')"
  by (simp add: bulk_request_def cold_world_def cold_db_def retrieval_eval)

text \<open>A failure while a restore is initiated is recorded: when
  \<open>handle_glacier_download\<close> raises, the stored operation has status failed and carries
  the message of the exception, the status write itself succeeding.\<close>

lemma restore_failure_recorded:
  assumes "fst (handle_glacier_download w d download_id key repo) = Inl e"
    and "\<not> update_item_fails w" and "e \<noteq> []"
  shows "\<exists>item. downloads (fst (snd (handle_glacier_download w d download_id key repo))) download_id
            = Some item \<and>
          dict_get item ''status'' = Some (JStr ''failed'') \<and>
          dict_get item ''error'' = Some (JStr e)"
  using assms
  by (auto simp: handle_glacier_download_def update_download_status_def Let_def dict_get_set
      split: prod.splits sum.splits)

text \<open>The delayed operation as the program stores it: its details hold the key, the
  tier, the estimate and the days, and no job identifier.\<close>

lemma created_item:
  "downloads created_db ''d-0001'' =
     Some [(''download_id'', JStr ''d-0001''), (''repository_name'', JStr ''demo''),
           (''backup_version'', JStr ''nightly/2025-05-01-22-32''), (''user_id'', JStr ''alice''),
           (''download_type'', JStr ''glacier_retrieval''),
           (''source_location'', JStr ''nightly/demo/2025-05-01-22-32.tar.gz''),
           (''status'', JStr ''in_progress''), (''created_at'', JStr ''2025-07-01T22:40:00+00:00''),
           (''expires_at'', JNum 1754001600),
           (''updated_at'', JStr ''2025-07-01T22:40:00+00:00''),
           (''details'', JDict [(''s3_key'', JStr ''nightly/demo/2025-05-01-22-32.tar.gz''),
                               (''restore_tier'', JStr ''Standard''),
                               (''estimated_completion'', JStr ''3-5 hours''),
                               (''restore_days'', JNum 7)])]"
  by (simp add: created_db_def standard_request_def cold_world_def cold_db_def retrieval_eval)

text \<open>A poll of an operation whose details hold no job identifier returns the stored
  item, writes nothing and calls nothing.\<close>

lemma poll_without_job_id_reads_only:
  assumes "downloads d download_id = Some item" and "download_id \<noteq> []"
    and "get_item_error w = None"
    and "dict_get item ''details'' = Some (JDict details)"
    and "dict_get details ''glacier_job_id'' = None"
  shows "get_download_status w d download_id = (ApiResponse 200 item, d, [])"
  using assms by (simp add: get_download_status_def)

text \<open>Called on that operation with the object missing, the restore check answers failed
  with "Object not found" and leaves the table as it was.\<close>

lemma check_reports_missing_object_without_recording:
  "check_glacier_job_status missing_world created_db job_id ''d-0001'' =
     (Some [(''status'', JStr ''failed''), (''error'', JStr ''Object not found'')], created_db,
      [HeadObject ''nightly/demo/2025-05-01-22-32.tar.gz''])"
  by (simp add: created_item check_glacier_job_status_def poll_failed_def dict_get_def
      missing_world_def cold_world_def)

text \<open>
  C3. The delayed operation the program has created is stored in progress, with no job
  identifier in its details. Polled when the object is missing, or when the check of
  the object would raise, it is reported in progress with no error; the poll makes no
  call to the object store and leaves the stored operation in progress, where the
  claim has it transition to failed.
\<close>

theorem poll_of_created_operation_skips_restore_check:
  "dict_get (the (downloads created_db ''d-0001'')) ''download_type'' = Some (JStr ''glacier_retrieval'')
   \<and> dict_get (the (downloads created_db ''d-0001'')) ''status'' = Some (JStr ''in_progress'')
   \<and> detail_of (the (downloads created_db ''d-0001'')) ''glacier_job_id'' = None
   \<and> head_object missing_world ''nightly/demo/2025-05-01-22-32.tar.gz'' = HeadNotFound
   \<and> reported_status (fst (get_download_status missing_world created_db ''d-0001''))
        = Some (JStr ''in_progress'')
   \<and> dict_get (response_body (fst (get_download_status missing_world created_db ''d-0001''))) ''error''
        = None
   \<and> snd (snd (get_download_status missing_world created_db ''d-0001'')) = []
   \<and> fst (snd (get_download_status missing_world created_db ''d-0001'')) = created_db
   \<and> head_object denied_world ''nightly/demo/2025-05-01-22-32.tar.gz'' = HeadError ''Access Denied''
   \<and> reported_status (fst (get_download_status denied_world created_db ''d-0001''))
        = Some (JStr ''in_progress'')
   \<and> snd (snd (get_download_status denied_world created_db ''d-0001'')) = []
   \<and> fst (snd (get_download_status denied_world created_db ''d-0001'')) = created_db"
  by (simp add: created_item get_download_status_def dict_get_def detail_of_def
      reported_status_def response_body_def missing_world_def denied_world_def cold_world_def)

end
